theory Spec2Isabelle
  imports Complex_Main "HOL-Library.Word"
begin

unbundle bit_operations_syntax

section \<open>Status codes, enumerations and values\<close>

text \<open>
  The DeepSix decoder of \<^verbatim>\<open>src/deepsix_parser.c\<close> and the generic entry points of
  \<^verbatim>\<open>src/parser.c\<close>. Bytes are \<open>8 word\<close>; \<^verbatim>\<open>unsigned int\<close> and \<^verbatim>\<open>int\<close> are \<open>32 word\<close>,
  read with \<open>unat\<close> and with \<open>sint\<close> (two's complement, which is also how an
  \<^verbatim>\<open>unsigned int\<close> beyond \<^verbatim>\<open>INT_MAX\<close> is converted to \<^verbatim>\<open>int\<close>). \<^verbatim>\<open>double\<close> is idealised
  as \<open>real\<close>: the three conversions of the decoder (a quotient by 100, a quotient by 10
  and the depth formula) are exact here, where the machine rounds each operation to
  the nearest double, a relative error below \<open>10\<^sup>-\<^sup>1\<^sup>5\<close>.

  The status codes are the ones \<^verbatim>\<open>dctool_errmsg\<close> of \<^verbatim>\<open>examples/common.c\<close> switches on, in
  its order, and \<^verbatim>\<open>DC_STATUS_DONE\<close>, which the iterators there return.
\<close>

datatype dc_status =
    DC_STATUS_SUCCESS
  | DC_STATUS_DONE
  | DC_STATUS_UNSUPPORTED
  | DC_STATUS_INVALIDARGS
  | DC_STATUS_NOMEMORY
  | DC_STATUS_NODEVICE
  | DC_STATUS_NOACCESS
  | DC_STATUS_IO
  | DC_STATUS_TIMEOUT
  | DC_STATUS_PROTOCOL
  | DC_STATUS_DATAFORMAT
  | DC_STATUS_CANCELLED

text \<open>
  Modelled from the spec: the enumeration \<^verbatim>\<open>dc_field_type_t\<close> is declared in
  \<^verbatim>\<open>libdivecomputer/parser.h\<close>, which is not among the sources. The spec keys the cache
  by "a fixed fact-type enumeration"; the enumerators are the ones that
  \<^verbatim>\<open>deepsix_parser_get_field\<close> names, and the three temperature facts, which it leaves to
  its \<^verbatim>\<open>default\<close> label.
\<close>

datatype dc_field_type =
    DC_FIELD_DIVETIME
  | DC_FIELD_MAXDEPTH
  | DC_FIELD_AVGDEPTH
  | DC_FIELD_GASMIX_COUNT
  | DC_FIELD_GASMIX
  | DC_FIELD_SALINITY
  | DC_FIELD_ATMOSPHERIC
  | DC_FIELD_TEMPERATURE_SURFACE
  | DC_FIELD_TEMPERATURE_MINIMUM
  | DC_FIELD_TEMPERATURE_MAXIMUM
  | DC_FIELD_TANK_COUNT
  | DC_FIELD_TANK
  | DC_FIELD_DIVEMODE
  | DC_FIELD_STRING

text \<open>
  Modelled from the spec: the values of the enumerators of \<^verbatim>\<open>dc_field_type_t\<close>, which
  \<^verbatim>\<open>1 << type\<close> turns into the bits of the presence mask. The spec gives "a presence
  bitmask (one bit per fact type)": the enumerators are numbered from 0 in the order
  above, so each has a bit of its own among the 32.
\<close>

fun field_bit :: "dc_field_type \<Rightarrow> nat" where
  "field_bit DC_FIELD_DIVETIME = 0"
| "field_bit DC_FIELD_MAXDEPTH = 1"
| "field_bit DC_FIELD_AVGDEPTH = 2"
| "field_bit DC_FIELD_GASMIX_COUNT = 3"
| "field_bit DC_FIELD_GASMIX = 4"
| "field_bit DC_FIELD_SALINITY = 5"
| "field_bit DC_FIELD_ATMOSPHERIC = 6"
| "field_bit DC_FIELD_TEMPERATURE_SURFACE = 7"
| "field_bit DC_FIELD_TEMPERATURE_MINIMUM = 8"
| "field_bit DC_FIELD_TEMPERATURE_MAXIMUM = 9"
| "field_bit DC_FIELD_TANK_COUNT = 10"
| "field_bit DC_FIELD_TANK = 11"
| "field_bit DC_FIELD_DIVEMODE = 12"
| "field_bit DC_FIELD_STRING = 13"

text \<open>
  Modelled from the spec: \<^verbatim>\<open>dc_divemode_t\<close> of \<^verbatim>\<open>libdivecomputer/parser.h\<close>. The spec
  lists the dive modes "open-circuit / gauge / freedive / closed-circuit"; the first
  enumerator is the one a cleared cache holds.
\<close>

datatype dc_divemode =
    DC_DIVEMODE_FREEDIVE
  | DC_DIVEMODE_GAUGE
  | DC_DIVEMODE_OC
  | DC_DIVEMODE_CCR

text \<open>
  Modelled from the spec: \<^verbatim>\<open>dc_gasmix_t\<close> of \<^verbatim>\<open>libdivecomputer/parser.h\<close>, "the
  breathing-gas composition (oxygen fraction, etc.)". The decoder writes the member
  \<^verbatim>\<open>oxygen\<close> and clears the rest.
\<close>

record dc_gasmix =
  helium :: real
  oxygen :: real
  nitrogen :: real

text \<open>
  Modelled from the spec: \<^verbatim>\<open>dc_sample_type_t\<close> of \<^verbatim>\<open>libdivecomputer/parser.h\<close>, the tags
  of "a tagged value (time offset, depth, temperature, pressure, event, gas-switch,
  ...)"; only the three tags that the decoder delivers are listed.
\<close>

datatype dc_sample_type =
    DC_SAMPLE_TIME
  | DC_SAMPLE_DEPTH
  | DC_SAMPLE_TEMPERATURE

text \<open>
  Modelled from the spec: \<^verbatim>\<open>dc_sample_value_t\<close> of \<^verbatim>\<open>libdivecomputer/parser.h\<close>, the value
  of "a tagged value": the member of the sample that the decoder wrote last before the
  call, which is the one that the tag names.
\<close>

datatype dc_sample_value =
    Time "32 word"
  | Depth real
  | Temperature real

text \<open>
  The callback \<^verbatim>\<open>dc_sample_callback_t\<close> returns nothing; what it does to the state behind
  its \<^verbatim>\<open>userdata\<close> pointer is a function on that state, of type \<open>'u\<close>.
\<close>

type_synonym 'u dc_sample_callback = "dc_sample_type \<Rightarrow> dc_sample_value \<Rightarrow> 'u \<Rightarrow> 'u"

text \<open>
  Modelled from the spec: \<^verbatim>\<open>dc_datetime_t\<close> of \<^verbatim>\<open>libdivecomputer/datetime.h\<close>, "a calendar
  date-time derived from header fields", with the members that
  \<^verbatim>\<open>deepsix_parser_get_datetime\<close> writes; \<open>None\<close> is \<^verbatim>\<open>DC_TIMEZONE_NONE\<close>.
\<close>

record dc_datetime =
  year :: int
  month :: int
  day :: int
  hour :: int
  minute :: int
  second :: int
  timezone :: "int option"

section \<open>The field cache\<close>

text \<open>
  Modelled from the spec: the constant \<^verbatim>\<open>MAXGASES\<close> of \<^verbatim>\<open>field-cache.h\<close>, which is not
  among the sources: "indexed storage up to a fixed maximum (e.g., 16 entries)".
\<close>

definition MAXGASES :: "32 word" where
  "MAXGASES = 16"

text \<open>
  Modelled from the spec: \<^verbatim>\<open>struct dc_field_cache\<close> of \<^verbatim>\<open>field-cache.h\<close>, a "sparse,
  presence-tracked store of dive-level facts" with "a presence bitmask (one bit per
  fact type)" and, for the gas mixes, "indexed storage up to a fixed maximum". The
  members are the ones that the decoder names in its calls of the macros.
\<close>

record dc_field_cache =
  initialized :: "32 word"
  DIVETIME :: "32 word"
  MAXDEPTH :: real
  AVGDEPTH :: real
  ATMOSPHERIC :: real
  DIVEMODE :: dc_divemode
  GASMIX_COUNT :: "32 word"
  SALINITY :: real
  GASMIX :: "dc_gasmix list"

text \<open>
  What a query writes through its \<^verbatim>\<open>void *value\<close>: the member of the cache, with its
  type.
\<close>

datatype dc_field_value =
    UInt "32 word"
  | Double real
  | Divemode dc_divemode
  | Gasmix dc_gasmix
  | FieldString string string

text \<open>
  What \<^verbatim>\<open>dc_gasmix_t gasmix = {0, }\<close> and \<^verbatim>\<open>memset (&cache, 0, sizeof (cache))\<close> leave:
  every member zero.
\<close>

definition zero_gasmix :: dc_gasmix where
  "zero_gasmix = \<lparr>helium = 0, oxygen = 0, nitrogen = 0\<rparr>"

definition zero_cache :: dc_field_cache where
  "zero_cache =
     \<lparr>initialized = 0, DIVETIME = 0, MAXDEPTH = 0, AVGDEPTH = 0, ATMOSPHERIC = 0,
      DIVEMODE = DC_DIVEMODE_FREEDIVE, GASMIX_COUNT = 0, SALINITY = 0,
      GASMIX = replicate (unat MAXGASES) zero_gasmix\<rparr>"

text \<open>
  Modelled from the spec: the macro \<^verbatim>\<open>DC_ASSIGN_FIELD (cache, NAME, value)\<close> of
  \<^verbatim>\<open>field-cache.h\<close>: "\<open>assign(type, value)\<close> sets the presence bit and stores a scalar".
  The macro pastes \<^verbatim>\<open>NAME\<close> into the enumerator and into the member; the model takes
  the enumerator and the store into the member side by side.
\<close>

definition DC_ASSIGN_FIELD ::
  "dc_field_cache \<Rightarrow> dc_field_type \<Rightarrow> (dc_field_cache \<Rightarrow> dc_field_cache) \<Rightarrow> dc_field_cache" where
  "DC_ASSIGN_FIELD c t store =
     store (c\<lparr>initialized := initialized c OR push_bit (field_bit t) 1\<rparr>)"

text \<open>
  Modelled from the spec: the macro \<^verbatim>\<open>DC_ASSIGN_IDX (cache, NAME, n, value)\<close> of
  \<^verbatim>\<open>field-cache.h\<close>: "\<open>assign_indexed(type, index, value)\<close> sets presence for the array's
  aggregate type and at \<open>index\<close>".
\<close>

definition DC_ASSIGN_IDX ::
  "dc_field_cache \<Rightarrow> dc_field_type \<Rightarrow> nat \<Rightarrow> (nat \<Rightarrow> dc_field_cache \<Rightarrow> dc_field_cache) \<Rightarrow>
   dc_field_cache" where
  "DC_ASSIGN_IDX c t n store =
     store n (c\<lparr>initialized := initialized c OR push_bit (field_bit t) 1\<rparr>)"

text \<open>
  Modelled from the spec: the macro \<^verbatim>\<open>DC_FIELD_VALUE (cache, p, NAME)\<close> of
  \<^verbatim>\<open>field-cache.h\<close>: "\<open>get(type)\<close> ... fail unsupported if unset". The decoder reaches
  it only behind its own presence test, where it hands the member out and succeeds.
\<close>

definition DC_FIELD_VALUE :: "dc_field_value \<Rightarrow> dc_status \<times> dc_field_value option" where
  "DC_FIELD_VALUE v = (DC_STATUS_SUCCESS, Some v)"

text \<open>
  Modelled from the spec: the macro \<^verbatim>\<open>DC_FIELD_INDEX (cache, p, NAME, idx)\<close> of
  \<^verbatim>\<open>field-cache.h\<close>, for the member \<^verbatim>\<open>GASMIX\<close>, the only one that the decoder indexes:
  "\<open>get(type)\<close> / \<open>get_indexed(type, index)\<close> fail unsupported if unset,
  invalid-argument if \<open>index\<close> exceeds the recorded count". The recorded count is the
  member \<^verbatim>\<open>GASMIX_COUNT\<close>; an index exceeds it when it is not below it, so that no entry
  that was never written is handed out. The decoder calls the macro for an index below
  \<^verbatim>\<open>MAXGASES\<close> only.
\<close>

definition DC_FIELD_INDEX :: "dc_field_cache \<Rightarrow> 32 word \<Rightarrow> dc_status \<times> dc_field_value option" where
  "DC_FIELD_INDEX c idx =
     (if initialized c AND push_bit (field_bit DC_FIELD_GASMIX) 1 = 0
      then (DC_STATUS_UNSUPPORTED, None)
      else if GASMIX_COUNT c \<le> idx then (DC_STATUS_INVALIDARGS, None)
      else (DC_STATUS_SUCCESS, Some (Gasmix (GASMIX c ! unat idx))))"

section \<open>The decoder instance\<close>

text \<open>
  \<^verbatim>\<open>deepsix_parser_t\<close>: the base class holds the borrowed buffer and its size, the
  decoder adds the callback, its context, the sample interval and the cache. A
  \<^verbatim>\<open>NULL\<close> pointer is \<open>None\<close> (for the buffer, the empty list). The table of operations
  and the log context of the base class are the same for every instance and are left
  out: the entry points \<^verbatim>\<open>dc_parser_get_field\<close> and \<^verbatim>\<open>dc_parser_samples_foreach\<close> only
  pass their arguments on to the decoder's functions below.
\<close>

record 'u deepsix_parser =
  base_data :: "8 word list"
  base_size :: "32 word"
  callback :: "'u dc_sample_callback option"
  userdata :: "'u option"
  sample_interval :: "32 word"
  cache :: dc_field_cache

text \<open>
  \<^verbatim>\<open>dc_parser_allocate\<close> takes the instance from \<^verbatim>\<open>malloc\<close>, which does not clear it:
  the argument is what \<^verbatim>\<open>malloc\<close> returned (\<open>None\<close> when it failed), with whatever the
  memory held, and only the base class is initialised.
\<close>

definition dc_parser_allocate :: "'u deepsix_parser option \<Rightarrow> 'u deepsix_parser option" where
  "dc_parser_allocate mem =
     (case mem of
        None \<Rightarrow> None
      | Some parser \<Rightarrow> Some (parser\<lparr>base_data := [], base_size := 0\<rparr>))"

definition deepsix_parser_create ::
  "'u deepsix_parser option \<Rightarrow> dc_status \<times> 'u deepsix_parser option" where
  "deepsix_parser_create mem =
     (case dc_parser_allocate mem of
        None \<Rightarrow> (DC_STATUS_NOMEMORY, None)
      | Some parser \<Rightarrow> (DC_STATUS_SUCCESS, Some parser))"

section \<open>Header decoding\<close>

definition pressure_to_depth :: "32 word \<Rightarrow> real" where
  "pressure_to_depth mbar =
     (let specific_weight = 1.024 * 0.980665 :: real in
      if mbar < 1013 then 0
      else real (unat (mbar - 1013)) / specific_weight / 100)"

text \<open>
  The reporting macros of \<^verbatim>\<open>context-private.h\<close> (not among the sources) write to the log
  of the context and change nothing else. A report is returned beside the status, as
  the macro that the source calls and what it reports: the decoder calls \<^verbatim>\<open>ERROR\<close>, the
  error-level macro, and never \<^verbatim>\<open>WARNING\<close>.
\<close>

datatype log_macro = ERROR | WARNING | INFO | DEBUG

datatype message = Unknown_activity_type "8 word"

type_synonym diagnostic = "log_macro \<times> message"

text \<open>
  \<^verbatim>\<open>deepsix_parser_set_data\<close>. The \<^verbatim>\<open>switch\<close> on the activity type is the chain of tests
  on \<open>dat ! 2\<close>; every byte that is read lies in the header, below the 256 that the
  size has been compared with.
\<close>

definition deepsix_parser_set_data ::
  "'u deepsix_parser \<Rightarrow> 8 word list \<Rightarrow> 32 word \<Rightarrow> dc_status \<times> diagnostic list \<times> 'u deepsix_parser" where
  "deepsix_parser_set_data deepsix dat sz =
     (let hdr = dat; gasmix = zero_gasmix in
      if sz < 256 then (DC_STATUS_IO, [], deepsix)
      else
        let deepsix = deepsix\<lparr>callback := None, userdata := None, cache := zero_cache\<rparr>;
            divetime = ucast (hdr ! 12) + 256 * ucast (hdr ! 13) :: 32 word;
            (divetime, diags, deepsix) =
              (if dat ! 2 = 2 then
                 let divetime = divetime * 60;
                     gasmix = gasmix\<lparr>oxygen := real (unat (dat ! 3)) / 100\<rparr>;
                     c = DC_ASSIGN_IDX (cache deepsix) DC_FIELD_GASMIX 0
                           (\<lambda>n c. c\<lparr>GASMIX := (GASMIX c)[n := gasmix]\<rparr>);
                     c = DC_ASSIGN_FIELD c DC_FIELD_GASMIX_COUNT (\<lambda>c. c\<lparr>GASMIX_COUNT := 1\<rparr>);
                     c = DC_ASSIGN_FIELD c DC_FIELD_DIVEMODE (\<lambda>c. c\<lparr>DIVEMODE := DC_DIVEMODE_OC\<rparr>)
                 in (divetime, [], deepsix\<lparr>cache := c\<rparr>)
               else if dat ! 2 = 3 then
                 let divetime = divetime * 60;
                     c = DC_ASSIGN_FIELD (cache deepsix) DC_FIELD_DIVEMODE
                           (\<lambda>c. c\<lparr>DIVEMODE := DC_DIVEMODE_GAUGE\<rparr>)
                 in (divetime, [], deepsix\<lparr>cache := c\<rparr>)
               else if dat ! 2 = 4 then
                 let c = DC_ASSIGN_FIELD (cache deepsix) DC_FIELD_DIVEMODE
                           (\<lambda>c. c\<lparr>DIVEMODE := DC_DIVEMODE_FREEDIVE\<rparr>)
                 in (divetime, [], deepsix\<lparr>cache := c, sample_interval := 1\<rparr>)
               else (divetime, [(ERROR, Unknown_activity_type (dat ! 2))], deepsix));
            deepsix = deepsix\<lparr>sample_interval := ucast (hdr ! 26)\<rparr>;
            maxpressure = ucast (hdr ! 22) + 256 * ucast (hdr ! 23) :: 32 word;
            c = DC_ASSIGN_FIELD (cache deepsix) DC_FIELD_DIVETIME (\<lambda>c. c\<lparr>DIVETIME := divetime\<rparr>);
            c = DC_ASSIGN_FIELD c DC_FIELD_MAXDEPTH
                  (\<lambda>c. c\<lparr>MAXDEPTH := pressure_to_depth maxpressure\<rparr>)
        in (DC_STATUS_SUCCESS, diags, deepsix\<lparr>cache := c\<rparr>))"

text \<open>
  \<^verbatim>\<open>dc_parser_set_data\<close> records the buffer and its size in the base class, then calls
  the decoder's function: the instance is there and its table has the entry.
\<close>

definition dc_parser_set_data ::
  "'u deepsix_parser \<Rightarrow> 8 word list \<Rightarrow> 32 word \<Rightarrow> dc_status \<times> diagnostic list \<times> 'u deepsix_parser" where
  "dc_parser_set_data parser dat sz =
     deepsix_parser_set_data (parser\<lparr>base_data := dat, base_size := sz\<rparr>) dat sz"

section \<open>Queries\<close>

text \<open>
  \<^verbatim>\<open>deepsix_parser_get_datetime\<close> reads the size into an \<^verbatim>\<open>int\<close> before it compares it
  with the header size.
\<close>

definition deepsix_parser_get_datetime :: "'u deepsix_parser \<Rightarrow> dc_status \<times> dc_datetime option" where
  "deepsix_parser_get_datetime deepsix =
     (let dat = base_data deepsix; len = sint (base_size deepsix) in
      if len < 256 then (DC_STATUS_IO, None)
      else (DC_STATUS_SUCCESS,
            Some \<lparr>year = uint (dat ! 6) + uint (dat ! 7) * 256, month = uint (dat ! 9),
                  day = uint (dat ! 8), hour = uint (dat ! 11), minute = uint (dat ! 10),
                  second = 0, timezone = None\<rparr>))"

text \<open>The \<^verbatim>\<open>void *value\<close> of a query: \<^verbatim>\<open>NULL\<close>, or somewhere to write the fact.\<close>

datatype out_pointer = NULL | Out

text \<open>
  \<^verbatim>\<open>deepsix_parser_get_field\<close>; it returns the status and what it has written through
  \<^verbatim>\<open>value\<close>, and writes nothing to the instance. The macro \<^verbatim>\<open>DC_FIELD_INDEX\<close> of
  \<^verbatim>\<open>field-cache.h\<close> and the function \<^verbatim>\<open>dc_field_get_string\<close> of the field cache are not
  among the sources: the model takes them as the parameters \<open>field_index\<close> and
  \<open>get_string\<close>, a function of the cache and the index each. For \<open>field_index\<close> the
  macro as the spec words it is \<open>DC_FIELD_INDEX\<close> above.
\<close>

type_synonym indexed_getter = "dc_field_cache \<Rightarrow> 32 word \<Rightarrow> dc_status \<times> dc_field_value option"

definition deepsix_parser_get_field ::
  "indexed_getter \<Rightarrow> indexed_getter \<Rightarrow> 'u deepsix_parser \<Rightarrow> dc_field_type \<Rightarrow> 32 word \<Rightarrow>
   out_pointer \<Rightarrow> dc_status \<times> dc_field_value option" where
  "deepsix_parser_get_field field_index get_string deepsix type flags val =
     (if val = NULL then (DC_STATUS_INVALIDARGS, None)
      else if initialized (cache deepsix) AND push_bit (field_bit type) 1 = 0
      then (DC_STATUS_UNSUPPORTED, None)
      else
        (case type of
           DC_FIELD_DIVETIME \<Rightarrow> DC_FIELD_VALUE (UInt (DIVETIME (cache deepsix)))
         | DC_FIELD_MAXDEPTH \<Rightarrow> DC_FIELD_VALUE (Double (MAXDEPTH (cache deepsix)))
         | DC_FIELD_AVGDEPTH \<Rightarrow> DC_FIELD_VALUE (Double (AVGDEPTH (cache deepsix)))
         | DC_FIELD_GASMIX_COUNT \<Rightarrow> DC_FIELD_VALUE (UInt (GASMIX_COUNT (cache deepsix)))
         | DC_FIELD_TANK_COUNT \<Rightarrow> DC_FIELD_VALUE (UInt (GASMIX_COUNT (cache deepsix)))
         | DC_FIELD_GASMIX \<Rightarrow>
             if flags \<ge> MAXGASES then (DC_STATUS_UNSUPPORTED, None)
             else field_index (cache deepsix) flags
         | DC_FIELD_SALINITY \<Rightarrow> DC_FIELD_VALUE (Double (SALINITY (cache deepsix)))
         | DC_FIELD_ATMOSPHERIC \<Rightarrow> DC_FIELD_VALUE (Double (ATMOSPHERIC (cache deepsix)))
         | DC_FIELD_DIVEMODE \<Rightarrow> DC_FIELD_VALUE (Divemode (DIVEMODE (cache deepsix)))
         | DC_FIELD_TANK \<Rightarrow> (DC_STATUS_UNSUPPORTED, None)
         | DC_FIELD_STRING \<Rightarrow> get_string (cache deepsix) flags
         | _ \<Rightarrow> (DC_STATUS_UNSUPPORTED, None)))"

section \<open>Sample streaming\<close>

text \<open>
  The body loop of \<^verbatim>\<open>deepsix_parser_samples_foreach\<close>: \<open>dat\<close> is the moving pointer
  \<^verbatim>\<open>data\<close> (what is left of the buffer), \<open>i\<close> the loop counter, \<open>n\<close> the bound
  \<^verbatim>\<open>len/4\<close>; both are \<^verbatim>\<open>int\<close> in the source and never negative in the loop. The
  product \<^verbatim>\<open>(i+1)*deepsix->sample_interval\<close> is an \<^verbatim>\<open>int\<close> product stored in the
  \<^verbatim>\<open>unsigned int\<close> member \<^verbatim>\<open>time\<close>: it is taken in 32 bits, which is the source's
  meaning as long as the product is below \<open>2\<^sup>3\<^sup>1\<close>.
\<close>

function samples_loop ::
  "'u dc_sample_callback option \<Rightarrow> 32 word \<Rightarrow> 8 word list \<Rightarrow> nat \<Rightarrow> nat \<Rightarrow> 'u \<Rightarrow> 'u" where
  "samples_loop cb interval dat i n ud =
     (if i < n then
        let temp = ucast (dat ! 0) + 256 * ucast (dat ! 1) :: 32 word;
            pressure = ucast (dat ! 2) + 256 * ucast (dat ! 3) :: 32 word;
            dat' = drop 4 dat;
            ud = (case cb of None \<Rightarrow> ud
                  | Some f \<Rightarrow> f DC_SAMPLE_TIME (Time (of_nat (i + 1) * interval)) ud);
            ud = (case cb of None \<Rightarrow> ud
                  | Some f \<Rightarrow> f DC_SAMPLE_DEPTH (Depth (pressure_to_depth pressure)) ud);
            ud = (case cb of None \<Rightarrow> ud
                  | Some f \<Rightarrow> f DC_SAMPLE_TEMPERATURE (Temperature (real (unat temp) / 10)) ud)
        in samples_loop cb interval dat' (i + 1) n ud
      else ud)"
  by pat_completeness auto
termination
  by (relation "measure (\<lambda>(cb, interval, dat, i, n, ud). n - i)") auto

text \<open>
  \<^verbatim>\<open>deepsix_parser_samples_foreach\<close> stores the callback and its context in the
  instance, reads the size into the \<^verbatim>\<open>int\<close> \<open>len\<close>, and runs the loop over what follows
  the header. It returns the status, the instance and the state behind \<^verbatim>\<open>userdata\<close>.
\<close>

definition deepsix_parser_samples_foreach ::
  "'u deepsix_parser \<Rightarrow> 'u dc_sample_callback option \<Rightarrow> 'u \<Rightarrow> dc_status \<times> 'u deepsix_parser \<times> 'u" where
  "deepsix_parser_samples_foreach deepsix cb ud =
     (let dat = base_data deepsix; len = sint (base_size deepsix);
          deepsix = deepsix\<lparr>callback := cb, userdata := Some ud\<rparr>
      in if len < 256 then (DC_STATUS_IO, deepsix, ud)
         else (DC_STATUS_SUCCESS, deepsix,
               samples_loop cb (sample_interval deepsix) (drop 256 dat) 0
                 (nat ((len - 256) div 4)) ud))"

section \<open>The sample stream as the specification words it\<close>

text \<open>
  The stream that a buffer with a body of \<open>L\<close> bytes is specified to yield, written from
  the words of the specification and not from the loop: record \<open>i\<close> (counted from 1)
  occupies the four bytes at offset \<open>256 + 4 * (i - 1)\<close>, and gives three deliveries in
  the order time, depth, temperature: the time \<open>i\<close> times header byte 26, the depth
  converted from the second 16-bit little-endian field, the temperature a tenth of the
  first. \<open>deliver\<close> hands one delivery to a callback.
\<close>

definition deliver :: "'u dc_sample_callback \<Rightarrow> dc_sample_type \<times> dc_sample_value \<Rightarrow> 'u \<Rightarrow> 'u" where
  "deliver cb d ud = cb (fst d) (snd d) ud"

definition le16 :: "8 word list \<Rightarrow> nat \<Rightarrow> nat" where
  "le16 buf k = unat (buf ! k) + 256 * unat (buf ! (k + 1))"

definition spec_record :: "8 word list \<Rightarrow> nat \<Rightarrow> (dc_sample_type \<times> dc_sample_value) list" where
  "spec_record buf i =
     [(DC_SAMPLE_TIME, Time (of_nat (i * unat (buf ! 26)))),
      (DC_SAMPLE_DEPTH, Depth (pressure_to_depth (of_nat (le16 buf (256 + 4 * (i - 1) + 2))))),
      (DC_SAMPLE_TEMPERATURE, Temperature (real (le16 buf (256 + 4 * (i - 1))) / 10))]"

definition spec_stream :: "8 word list \<Rightarrow> nat \<Rightarrow> (dc_sample_type \<times> dc_sample_value) list" where
  "spec_stream buf L = concat (map (spec_record buf) [1..<Suc (L div 4)])"

section \<open>Sequences of queries\<close>

text \<open>
  What a query leaves of the instance: \<^verbatim>\<open>deepsix_parser_get_field\<close> and
  \<^verbatim>\<open>deepsix_parser_get_datetime\<close> write nothing to it, \<^verbatim>\<open>deepsix_parser_samples_foreach\<close>
  stores the callback and its context.
\<close>

datatype 'u query =
    Get_field dc_field_type "32 word" out_pointer
  | Get_datetime
  | Samples_foreach "'u dc_sample_callback option" 'u

fun query_step :: "'u deepsix_parser \<Rightarrow> 'u query \<Rightarrow> 'u deepsix_parser" where
  "query_step p (Get_field t flags val) = p"
| "query_step p Get_datetime = p"
| "query_step p (Samples_foreach cb ud) = fst (snd (deepsix_parser_samples_foreach p cb ud))"

text \<open>
  The facts that \<^verbatim>\<open>deepsix_parser_set_data\<close> assigns once it is past the length test,
  read off the branches of its \<^verbatim>\<open>switch\<close> and the two assignments after it.
\<close>

definition assigned_fields :: "8 word list \<Rightarrow> dc_field_type list" where
  "assigned_fields dat =
     (if dat ! 2 = 2 then [DC_FIELD_GASMIX, DC_FIELD_GASMIX_COUNT, DC_FIELD_DIVEMODE]
      else if dat ! 2 = 3 then [DC_FIELD_DIVEMODE]
      else if dat ! 2 = 4 then [DC_FIELD_DIVEMODE]
      else [])
     @ [DC_FIELD_DIVETIME, DC_FIELD_MAXDEPTH]"

section \<open>Example instances and buffers\<close>

text \<open>
  A callback that records every delivery; a string accessor for a cache without
  strings; an instance on clear memory and one on memory that a previous owner left
  dirty; a scuba header (byte 2 = 2, 32 percent oxygen, 10 minutes, 2013 mbar, interval
  20), a freedive with two records (205 and 1113, 210 and 1213), a header with the
  unknown activity type 9, and buffers of \<open>2\<^sup>3\<^sup>1\<close> bytes and more.
\<close>

type_synonym trace = "(dc_sample_type \<times> dc_sample_value) list"

definition trace_callback :: "trace dc_sample_callback" where
  "trace_callback t v tr = tr @ [(t, v)]"

definition no_strings :: indexed_getter where
  "no_strings c i = (DC_STATUS_UNSUPPORTED, None)"

definition blank_parser :: "trace deepsix_parser" where
  "blank_parser =
     \<lparr>base_data = [], base_size = 0, callback = None, userdata = None,
      sample_interval = 0, cache = zero_cache\<rparr>"

definition stale_memory :: "trace deepsix_parser" where
  "stale_memory =
     \<lparr>base_data = [1], base_size = 1, callback = None, userdata = None,
      sample_interval = 5, cache = zero_cache\<lparr>initialized := 1, DIVETIME := 7\<rparr>\<rparr>"

definition scuba_header :: "8 word list" where
  "scuba_header = (replicate 256 0)[2 := 2, 3 := 32, 12 := 10, 22 := 221, 23 := 7, 26 := 20]"

definition scuba_parser :: "trace deepsix_parser" where
  "scuba_parser = snd (snd (dc_parser_set_data blank_parser scuba_header 256))"

definition freedive_dive :: "8 word list" where
  "freedive_dive =
     (replicate 256 0)[2 := 4, 12 := 10, 26 := 1] @ [205, 0, 89, 4, 210, 0, 189, 4]"

definition freedive_parser :: "trace deepsix_parser" where
  "freedive_parser = snd (snd (dc_parser_set_data blank_parser freedive_dive 264))"

definition huge_dive :: "8 word list" where
  "huge_dive = replicate 2147483648 0"

definition huge_parser :: "trace deepsix_parser" where
  "huge_parser = snd (snd (dc_parser_set_data blank_parser huge_dive 2147483648))"

definition fresh_parser :: "trace deepsix_parser" where
  "fresh_parser = stale_memory\<lparr>base_data := [], base_size := 0\<rparr>"

definition unknown_header :: "8 word list" where
  "unknown_header = (replicate 256 0)[2 := 9, 12 := 10, 22 := 221, 23 := 7, 26 := 20]"

definition unknown_parser :: "trace deepsix_parser" where
  "unknown_parser = snd (snd (dc_parser_set_data blank_parser unknown_header 256))"

definition odd_dive :: "8 word list" where
  "odd_dive = freedive_dive @ [1, 2, 3]"

definition huge_odd_dive :: "8 word list" where
  "huge_odd_dive = replicate 2147483649 0"

definition huge_odd_parser :: "trace deepsix_parser" where
  "huge_odd_parser = snd (snd (dc_parser_set_data blank_parser huge_odd_dive 2147483649))"

definition odd_parser :: "trace deepsix_parser" where
  "odd_parser = snd (snd (dc_parser_set_data blank_parser odd_dive 267))"

section \<open>Auxiliary facts\<close>

subsection \<open>Little-endian fields and the signed length\<close>

lemma unat_le16:
  fixes a b :: "8 word"
  shows "unat (ucast a + 256 * ucast b :: 32 word) = unat a + 256 * unat b"
proof -
  have "unat a < 256" "unat b < 256"
    using unsigned_less [of a] unsigned_less [of b] by simp_all
  then show ?thesis
    apply (simp add: unat_word_ariths)
    apply (simp add: unsigned_ucast_eq take_bit_nat_eq_self)
    done
qed

lemma word_le16:
  fixes a b :: "8 word"
  shows "(ucast a + 256 * ucast b :: 32 word) = of_nat (unat a + 256 * unat b)"
  by simp

lemma unat_divetime_minutes:
  fixes a b :: "8 word"
  shows "unat ((ucast a + 256 * ucast b) * 60 :: 32 word) = 60 * (unat a + 256 * unat b)"
proof -
  have "unat a < 256" "unat b < 256"
    using unsigned_less [of a] unsigned_less [of b] by simp_all
  then have "unat (ucast a + 256 * ucast b :: 32 word) * unat (60 :: 32 word) < 2 ^ LENGTH(32)"
    by (simp only: unat_le16) simp
  then have "unat ((ucast a + 256 * ucast b) * 60 :: 32 word) =
             unat (ucast a + 256 * ucast b :: 32 word) * unat (60 :: 32 word)"
    by (rule unat_mult_lem [THEN iffD1])
  then show ?thesis
    by (simp only: unat_le16) simp
qed

lemma pressure_to_depth_above:
  "1013 \<le> mbar \<Longrightarrow> pressure_to_depth mbar = (real (unat mbar) - 1013) / (1.024 * 0.980665) / 100"
proof -
  assume h: "1013 \<le> mbar"
  then have "unat (mbar - 1013) = unat mbar - 1013" and "1013 \<le> unat mbar"
    by (simp_all add: unat_sub word_le_nat_alt)
  then have "real (unat (mbar - 1013)) = real (unat mbar) - 1013"
    by simp
  moreover from h have "\<not> mbar < 1013" by simp
  ultimately show ?thesis
    by (simp add: pressure_to_depth_def Let_def)
qed

lemma pressure_to_depth_le16:
  "pressure_to_depth (of_nat (le16 buf k)) =
     (if le16 buf k < 1013 then 0
      else (real (le16 buf k) - 1013) / (1.024 * 0.980665) / 100)"
proof -
  have u: "unat (of_nat (le16 buf k) :: 32 word) = le16 buf k"
    using unat_le16 [of "buf ! k" "buf ! (k + 1)"] by (simp add: le16_def)
  show ?thesis
  proof (cases "le16 buf k < 1013")
    case True
    then have "(of_nat (le16 buf k) :: 32 word) < 1013"
      by (simp only: word_less_nat_alt u) simp
    with True show ?thesis
      by (simp add: pressure_to_depth_def)
  next
    case False
    then have "(1013 :: 32 word) \<le> of_nat (le16 buf k)"
      by (simp only: word_le_nat_alt u) simp
    from pressure_to_depth_above [OF this] False show ?thesis
      by (simp only: u) simp
  qed
qed

subsection \<open>The body loop\<close>

lemma samples_loop_None: "samples_loop None iv dat i n ud = ud"
  by (induction "None :: 'a dc_sample_callback option" iv dat i n ud rule: samples_loop.induct) simp

lemma samples_loop_step:
  assumes "256 + 4 * n \<le> length buf" and "i < n"
  shows "samples_loop (Some f) (ucast (buf ! 26)) (drop (256 + 4 * i) buf) i n ud =
         samples_loop (Some f) (ucast (buf ! 26)) (drop (256 + 4 * Suc i) buf) (Suc i) n
           (fold (deliver f) (spec_record buf (Suc i)) ud)"
proof -
  have dr: "drop 4 (drop (256 + 4 * i) buf) = drop (256 + 4 * Suc i) buf"
    by (simp add: add.commute)
  have rd: "drop (256 + 4 * i) buf ! j = buf ! (256 + 4 * i + j)" if "j < 4" for j
    using assms that by simp
  have tm: "(of_nat (i + 1) * ucast (buf ! 26) :: 32 word) = of_nat (Suc i * unat (buf ! 26))"
    by (simp add: algebra_simps)
  have dp: "(ucast (buf ! (256 + 4 * i + 2)) + 256 * ucast (buf ! (256 + 4 * i + 3)) :: 32 word)
            = of_nat (le16 buf (256 + 4 * (Suc i - 1) + 2))"
    by (simp add: le16_def add.commute add.left_commute)
  have tp: "unat (ucast (buf ! (256 + 4 * i + 0)) + 256 * ucast (buf ! (256 + 4 * i + 1)) :: 32 word)
            = le16 buf (256 + 4 * (Suc i - 1))"
    by (simp only: unat_le16 le16_def) simp
  have "samples_loop (Some f) (ucast (buf ! 26)) (drop (256 + 4 * i) buf) i n ud =
        samples_loop (Some f) (ucast (buf ! 26)) (drop 4 (drop (256 + 4 * i) buf)) (i + 1) n
          (f DC_SAMPLE_TEMPERATURE (Temperature (real (unat
               (ucast (buf ! (256 + 4 * i + 0)) + 256 * ucast (buf ! (256 + 4 * i + 1)) :: 32 word)) / 10))
            (f DC_SAMPLE_DEPTH (Depth (pressure_to_depth
               (ucast (buf ! (256 + 4 * i + 2)) + 256 * ucast (buf ! (256 + 4 * i + 3)))))
              (f DC_SAMPLE_TIME (Time (of_nat (i + 1) * ucast (buf ! 26))) ud)))"
    using assms(2)
    by (subst samples_loop.simps) (simp only: if_True Let_def option.case rd [symmetric])
  also have "\<dots> = samples_loop (Some f) (ucast (buf ! 26)) (drop (256 + 4 * Suc i) buf) (Suc i) n
           (fold (deliver f) (spec_record buf (Suc i)) ud)"
    by (simp only: dr tm dp tp) (simp add: spec_record_def deliver_def)
  finally show ?thesis .
qed

lemma samples_loop_Some:
  assumes "256 + 4 * n \<le> length buf"
  shows "i \<le> n \<Longrightarrow> samples_loop (Some f) (ucast (buf ! 26)) (drop (256 + 4 * i) buf) i n ud =
         fold (deliver f) (concat (map (spec_record buf) [Suc i..<Suc n])) ud"
proof (induction "n - i" arbitrary: i ud)
  case 0
  then have "i = n" by simp
  then show ?case by (subst samples_loop.simps) simp
next
  case (Suc k)
  then have lt: "i < n" and k: "k = n - Suc i" and le: "Suc i \<le> n" by simp_all
  have up: "[Suc i..<Suc n] = Suc i # [Suc (Suc i)..<Suc n]"
    using lt by (simp add: upt_conv_Cons)
  show ?case
    by (simp only: samples_loop_step [OF assms lt] Suc.hyps(1) [OF k le] up
          list.map concat.simps fold_append fold.simps comp_apply)
qed

subsection \<open>The instance after a successful \<^verbatim>\<open>set_data\<close>\<close>

lemma triple_collapse: "r = (fst r, fst (snd r), snd (snd r))"
  by simp

lemma set_data_frame:
  assumes "256 \<le> sz" and "dc_parser_set_data p0 dat sz = (st, diags, p)"
  shows "st = DC_STATUS_SUCCESS" and "base_data p = dat" and "base_size p = sz"
    and "sample_interval p = ucast (dat ! 26)" and "callback p = None" and "userdata p = None"
  using assms
  by (auto simp: dc_parser_set_data_def deepsix_parser_set_data_def Let_def split: if_splits)

lemma sint_size:
  fixes sz :: "32 word"
  assumes "unat sz < 2 ^ 31"
  shows "sint sz = int (unat sz)"
proof -
  from assms have "int (unat sz) < int (2 ^ 31)"
    by (simp only: of_nat_less_iff)
  then have "uint sz < 2 ^ 31"
    by simp
  moreover have "- (2 ^ 31) \<le> uint sz"
    by (rule order_trans [of _ 0]) simp_all
  ultimately have "signed_take_bit 31 (uint sz) = uint sz"
    by (rule signed_take_bit_int_eq_self [rotated])
  then show ?thesis
    by (simp add: sint_uint)
qed

lemma foreach_after_set_data:
  assumes "256 \<le> sz" and "unat sz < 2 ^ 31" and "dc_parser_set_data p0 dat sz = (st, diags, p)"
  shows "deepsix_parser_samples_foreach p cb ud =
           (DC_STATUS_SUCCESS, p\<lparr>callback := cb, userdata := Some ud\<rparr>,
            samples_loop cb (ucast (dat ! 26)) (drop 256 dat) 0 ((unat sz - 256) div 4) ud)"
proof -
  have "256 \<le> unat sz"
    using assms(1) by (simp add: word_le_nat_alt)
  then have "\<not> sint sz < 256" and "nat ((sint sz - 256) div 4) = (unat sz - 256) div 4"
    unfolding sint_size [OF assms(2)] by linarith+
  then show ?thesis
    by (simp add: deepsix_parser_samples_foreach_def Let_def set_data_frame [OF assms(1,3)])
qed

lemma foreach_huge:
  assumes "2 ^ 31 \<le> unat (base_size p)"
  shows "deepsix_parser_samples_foreach p cb ud =
           (DC_STATUS_IO, p\<lparr>callback := cb, userdata := Some ud\<rparr>, ud)"
proof -
  from assms have "int (2 ^ 31) \<le> int (unat (base_size p))"
    by (simp only: of_nat_le_iff)
  then have "2 ^ 31 \<le> uint (base_size p)"
    by simp
  then have "sint (base_size p) \<le> uint (base_size p) - 2 ^ 32"
    using signed_take_bit_int_less_eq [of 31 "uint (base_size p)"] by (simp add: sint_uint)
  moreover have "uint (base_size p) < 2 ^ 32"
    using uint_bounded [of "base_size p"] by simp
  ultimately have "sint (base_size p) < 0"
    by linarith
  then show ?thesis
    by (simp add: deepsix_parser_samples_foreach_def Let_def)
qed

lemma set_data_cache:
  assumes "256 \<le> sz" and "dc_parser_set_data p0 dat sz = (st, diags, p)"
  shows "cache p =
     (if dat ! 2 = 2 then
        zero_cache\<lparr>initialized := 4123,
          DIVETIME := (ucast (dat ! 12) + 256 * ucast (dat ! 13)) * 60,
          MAXDEPTH := pressure_to_depth (ucast (dat ! 22) + 256 * ucast (dat ! 23)),
          DIVEMODE := DC_DIVEMODE_OC, GASMIX_COUNT := 1,
          GASMIX := (GASMIX zero_cache)[0 := zero_gasmix\<lparr>oxygen := real (unat (dat ! 3)) / 100\<rparr>]\<rparr>
      else if dat ! 2 = 3 then
        zero_cache\<lparr>initialized := 4099,
          DIVETIME := (ucast (dat ! 12) + 256 * ucast (dat ! 13)) * 60,
          MAXDEPTH := pressure_to_depth (ucast (dat ! 22) + 256 * ucast (dat ! 23)),
          DIVEMODE := DC_DIVEMODE_GAUGE\<rparr>
      else if dat ! 2 = 4 then
        zero_cache\<lparr>initialized := 4099,
          DIVETIME := ucast (dat ! 12) + 256 * ucast (dat ! 13),
          MAXDEPTH := pressure_to_depth (ucast (dat ! 22) + 256 * ucast (dat ! 23)),
          DIVEMODE := DC_DIVEMODE_FREEDIVE\<rparr>
      else
        zero_cache\<lparr>initialized := 3,
          DIVETIME := ucast (dat ! 12) + 256 * ucast (dat ! 13),
          MAXDEPTH := pressure_to_depth (ucast (dat ! 22) + 256 * ucast (dat ! 23))\<rparr>)"
    and "diags = (if dat ! 2 = 2 \<or> dat ! 2 = 3 \<or> dat ! 2 = 4 then []
                  else [(ERROR, Unknown_activity_type (dat ! 2))])"
  using assms
  by (auto simp: dc_parser_set_data_def deepsix_parser_set_data_def Let_def
        DC_ASSIGN_FIELD_def DC_ASSIGN_IDX_def zero_cache_def split: if_splits)

lemma presence_test:
  "(w AND push_bit (field_bit t) 1 = (0 :: 32 word)) = (\<not> bit w (field_bit t))"
proof
  have k: "field_bit t < 32"
    by (cases t) simp_all
  assume "w AND push_bit (field_bit t) 1 = 0"
  then have "\<not> bit (w AND push_bit (field_bit t) 1) (field_bit t)"
    by simp
  with k show "\<not> bit w (field_bit t)"
    by (simp add: bit_and_iff bit_exp_iff)
next
  assume "\<not> bit w (field_bit t)"
  then show "w AND push_bit (field_bit t) 1 = 0"
    by (intro bit_word_eqI) (auto simp: bit_and_iff bit_exp_iff)
qed

lemma presence_after_set_data:
  assumes "256 \<le> sz" and "dc_parser_set_data p0 dat sz = (st, diags, p)"
  shows "bit (initialized (cache p)) (field_bit t) = (t \<in> set (assigned_fields dat))"
  unfolding set_data_cache(1) [OF assms]
  by (cases t) (simp_all add: assigned_fields_def zero_cache_def)

lemma query_step_cache: "cache (query_step p q) = cache p"
  by (cases q) (simp_all add: deepsix_parser_samples_foreach_def Let_def)

lemma queries_cache: "cache (foldl query_step p qs) = cache p"
  by (induction qs arbitrary: p) (simp_all add: query_step_cache)

subsection \<open>The specified stream\<close>

lemma length_spec_record: "length (spec_record buf i) = 3"
  by (simp add: spec_record_def)

lemma concat_blocks:
  assumes "\<And>k. length (f k) = 3"
  shows "length (concat (map f xs)) = 3 * length xs"
    and "i < length xs \<Longrightarrow> take 3 (drop (3 * i) (concat (map f xs))) = f (xs ! i)"
proof -
  show "length (concat (map f xs)) = 3 * length xs"
    by (induction xs) (simp_all add: assms)
  show "i < length xs \<Longrightarrow> take 3 (drop (3 * i) (concat (map f xs))) = f (xs ! i)"
  proof (induction xs arbitrary: i)
    case Nil
    then show ?case by simp
  next
    case (Cons x xs)
    show ?case
    proof (cases i)
      case 0
      then show ?thesis by (simp add: assms)
    next
      case (Suc j)
      with Cons.prems have "j < length xs" by simp
      from Cons.IH [OF this] Suc show ?thesis
        by (simp add: assms)
    qed
  qed
qed

lemma length_spec_stream: "length (spec_stream buf L) = 3 * (L div 4)"
  unfolding spec_stream_def by (simp add: concat_blocks(1) [OF length_spec_record])

lemma spec_stream_record:
  assumes "1 \<le> i" and "i \<le> L div 4"
  shows "take 3 (drop (3 * (i - 1)) (spec_stream buf L)) = spec_record buf i"
proof -
  from assms have "i - 1 < length [1..<Suc (L div 4)]" and "[1..<Suc (L div 4)] ! (i - 1) = i"
    by (simp_all add: nth_upt del: upt_Suc)
  then show ?thesis
    unfolding spec_stream_def
    using concat_blocks(2) [of "spec_record buf" "i - 1" "[1..<Suc (L div 4)]",
        OF length_spec_record]
    by (simp del: upt_Suc)
qed

lemma time_exact:
  assumes "i \<le> n" and "n * m < 2 ^ 32"
  shows "unat (of_nat (i * m) :: 32 word) = i * m"
proof -
  have "i * m \<le> n * m"
    using assms(1) by (rule mult_le_mono1)
  then have "i * m < 2 ^ 32"
    using assms(2) by (rule le_less_trans)
  then show ?thesis
    by (simp only: unat_of_nat) simp
qed

lemma unat_buffer_size:
  assumes "n < 2 ^ 31"
  shows "unat (of_nat n :: 32 word) = n"
proof -
  from assms have "n < 2 ^ 32"
    by simp
  then show ?thesis
    by (simp only: unat_of_nat) simp
qed

lemma foreach_stream:
  assumes "length buf = 256 + L" and "256 + L < 2 ^ 31"
    and "dc_parser_set_data p0 buf (of_nat (length buf)) = (st, diags, p)"
  shows "st = DC_STATUS_SUCCESS"
    and "deepsix_parser_samples_foreach p (Some cb) ud =
           (DC_STATUS_SUCCESS, p\<lparr>callback := Some cb, userdata := Some ud\<rparr>,
            fold (deliver cb) (spec_stream buf L) ud)"
proof -
  have u: "unat (of_nat (length buf) :: 32 word) = 256 + L"
    using assms(1,2) by (simp only: unat_buffer_size)
  then have big: "(256 :: 32 word) \<le> of_nat (length buf)"
    by (simp only: word_le_nat_alt) simp
  have small: "unat (of_nat (length buf) :: 32 word) < 2 ^ 31"
    using assms(2) by (simp only: u)
  show "st = DC_STATUS_SUCCESS"
    by (rule set_data_frame(1) [OF big assms(3)])
  have "256 + 4 * (L div 4) \<le> length buf"
    using assms(1) by simp
  from samples_loop_Some [OF this, of 0 cb ud]
  have "samples_loop (Some cb) (ucast (buf ! 26)) (drop 256 buf) 0 (L div 4) ud =
        fold (deliver cb) (spec_stream buf L) ud"
    by (simp add: spec_stream_def)
  then show "deepsix_parser_samples_foreach p (Some cb) ud =
           (DC_STATUS_SUCCESS, p\<lparr>callback := Some cb, userdata := Some ud\<rparr>,
            fold (deliver cb) (spec_stream buf L) ud)"
    by (simp only: foreach_after_set_data [OF big small assms(3)] u) simp
qed

lemma spec_record_take:
  assumes "1 \<le> i" and "i \<le> k"
  shows "spec_record (take (256 + 4 * k) buf) i = spec_record buf i"
proof -
  from assms have "256 + 4 * (i - 1) + 3 < 256 + 4 * k"
    by simp
  then show ?thesis
    by (simp add: spec_record_def le16_def)
qed

lemma spec_stream_take:
  assumes "r < 4"
  shows "spec_stream (take (256 + 4 * k) buf) (4 * k) = spec_stream buf (4 * k + r)"
proof -
  have k: "(4 * k + r) div 4 = k" "(4 * k) div 4 = k"
    using assms by simp_all
  have m: "map (spec_record (take (256 + 4 * k) buf)) [1..<Suc k] =
           map (spec_record buf) [1..<Suc k]"
    by (rule map_cong [OF refl]) (simp add: spec_record_take del: upt_Suc)
  show ?thesis
    by (simp only: spec_stream_def k m)
qed

subsection \<open>The example buffers\<close>

lemma base_size_huge:
  "base_size huge_parser = 2147483648"
  using set_data_frame(3) [OF _ triple_collapse,
      where sz = 2147483648 and dat = huge_dive and ?p0.0 = blank_parser]
  by (simp add: huge_parser_def)

lemma base_size_huge_odd:
  "base_size huge_odd_parser = 2147483649"
  using set_data_frame(3) [OF _ triple_collapse,
      where sz = 2147483649 and dat = huge_odd_dive and ?p0.0 = blank_parser]
  by (simp add: huge_odd_parser_def)

lemma freedive_stream:
  "spec_stream freedive_dive 8 =
     [(DC_SAMPLE_TIME, Time 1), (DC_SAMPLE_DEPTH, Depth (100 / (1.024 * 0.980665) / 100)),
      (DC_SAMPLE_TEMPERATURE, Temperature 20.5),
      (DC_SAMPLE_TIME, Time 2), (DC_SAMPLE_DEPTH, Depth (200 / (1.024 * 0.980665) / 100)),
      (DC_SAMPLE_TEMPERATURE, Temperature 21)]"
proof -
  have "[1..<Suc (8 div 4)] = [1, 2 :: nat]"
    by (simp add: upt_rec)
  then show ?thesis
    by (simp add: spec_stream_def spec_record_def le16_def freedive_dive_def nth_append
          pressure_to_depth_def del: upt_Suc)
qed

subsection \<open>Streaming and presence on a buffer below \<open>2\<^sup>3\<^sup>1\<close> bytes\<close>

text \<open>
  Where the size of the buffer fits the \<^verbatim>\<open>int\<close> that \<^verbatim>\<open>deepsix_parser_samples_foreach\<close>
  reads it into, the loop delivers the specified stream: \<open>3 * floor (L / 4)\<close>
  deliveries, in the order time, depth, temperature for each record, with the time of
  record \<open>i\<close> the product \<open>i * sample_interval\<close> as long as the 32 bits hold it.
\<close>

lemma samples_foreach_stream:
  assumes "length buf = 256 + L" and "256 + L < 2 ^ 31"
    and "(L div 4) * unat (buf ! 26) < 2 ^ 32"
    and "dc_parser_set_data p0 buf (of_nat (length buf)) = (st, diags, p)"
  shows "st = DC_STATUS_SUCCESS \<and>
         deepsix_parser_samples_foreach p (Some cb) ud =
           (DC_STATUS_SUCCESS, p\<lparr>callback := Some cb, userdata := Some ud\<rparr>,
            fold (deliver cb) (spec_stream buf L) ud) \<and>
         length (spec_stream buf L) = 3 * (L div 4) \<and>
         (\<forall>i. 1 \<le> i \<and> i \<le> L div 4 \<longrightarrow>
            (\<exists>t. unat t = i * unat (buf ! 26) \<and>
                 take 3 (drop (3 * (i - 1)) (spec_stream buf L)) =
                   [(DC_SAMPLE_TIME, Time t),
                    (DC_SAMPLE_DEPTH,
                     Depth (pressure_to_depth (of_nat (le16 buf (256 + 4 * (i - 1) + 2))))),
                    (DC_SAMPLE_TEMPERATURE,
                     Temperature (real (le16 buf (256 + 4 * (i - 1))) / 10))]))"
proof (intro conjI allI impI)
  show "st = DC_STATUS_SUCCESS"
    by (rule foreach_stream(1) [OF assms(1,2,4)])
  show "deepsix_parser_samples_foreach p (Some cb) ud =
           (DC_STATUS_SUCCESS, p\<lparr>callback := Some cb, userdata := Some ud\<rparr>,
            fold (deliver cb) (spec_stream buf L) ud)"
    by (rule foreach_stream(2) [OF assms(1,2,4)])
  show "length (spec_stream buf L) = 3 * (L div 4)"
    by (rule length_spec_stream)
  fix i
  assume i: "1 \<le> i \<and> i \<le> L div 4"
  then have "unat (of_nat (i * unat (buf ! 26)) :: 32 word) = i * unat (buf ! 26)"
    using assms(3) by (intro time_exact [of i "L div 4"]) simp_all
  moreover from i have "take 3 (drop (3 * (i - 1)) (spec_stream buf L)) = spec_record buf i"
    by (intro spec_stream_record) simp_all
  ultimately show "\<exists>t. unat t = i * unat (buf ! 26) \<and>
      take 3 (drop (3 * (i - 1)) (spec_stream buf L)) =
        [(DC_SAMPLE_TIME, Time t),
         (DC_SAMPLE_DEPTH, Depth (pressure_to_depth (of_nat (le16 buf (256 + 4 * (i - 1) + 2))))),
         (DC_SAMPLE_TEMPERATURE, Temperature (real (le16 buf (256 + 4 * (i - 1))) / 10))]"
    by (intro exI [of _ "of_nat (i * unat (buf ! 26))"]) (simp add: spec_record_def)
qed

text \<open>
  The freedive with interval 1 and the records (205, 1113) and (210, 1213), with the
  recording callback.
\<close>

lemma samples_foreach_freedive:
  "length freedive_dive = 256 + 8 \<and>
   deepsix_parser_samples_foreach freedive_parser (Some trace_callback) [] =
     (DC_STATUS_SUCCESS, freedive_parser\<lparr>callback := Some trace_callback, userdata := Some []\<rparr>,
      [(DC_SAMPLE_TIME, Time 1), (DC_SAMPLE_DEPTH, Depth (100 / (1.024 * 0.980665) / 100)),
       (DC_SAMPLE_TEMPERATURE, Temperature 20.5),
       (DC_SAMPLE_TIME, Time 2), (DC_SAMPLE_DEPTH, Depth (200 / (1.024 * 0.980665) / 100)),
       (DC_SAMPLE_TEMPERATURE, Temperature 21)])"
proof -
  have len: "length freedive_dive = 256 + 8"
    by (simp add: freedive_dive_def)
  have iv: "(8 div 4) * unat (freedive_dive ! 26) < 2 ^ 32"
    by (simp add: freedive_dive_def nth_append)
  show ?thesis
    using samples_foreach_stream [OF len _ iv triple_collapse,
        where ?p0.0 = blank_parser and cb = trace_callback and ud = "[]"]
    by (simp add: freedive_parser_def len freedive_stream deliver_def trace_callback_def)
qed

text \<open>
  Trailing bytes that do not complete a record give neither a delivery nor an error:
  the callback receives what it receives from the buffer cut after the last whole
  record.
\<close>

lemma samples_foreach_trailing:
  assumes "length buf = 256 + 4 * k + r" and "0 < r" and "r < 4" and "length buf < 2 ^ 31"
    and "dc_parser_set_data p0 buf (of_nat (length buf)) = (st, diags, p)"
  shows "st = DC_STATUS_SUCCESS \<and>
         deepsix_parser_samples_foreach p (Some cb) ud =
           (DC_STATUS_SUCCESS, p\<lparr>callback := Some cb, userdata := Some ud\<rparr>,
            fold (deliver cb) (spec_stream (take (256 + 4 * k) buf) (4 * k)) ud) \<and>
         length (spec_stream (take (256 + 4 * k) buf) (4 * k)) = 3 * k \<and>
         snd (snd (deepsix_parser_samples_foreach p (Some cb) ud)) =
           snd (snd (deepsix_parser_samples_foreach
             (snd (snd (dc_parser_set_data p0 (take (256 + 4 * k) buf)
                (of_nat (length (take (256 + 4 * k) buf))))))
             (Some cb) ud))"
proof -
  have len: "length buf = 256 + (4 * k + r)" and lt: "256 + (4 * k + r) < 2 ^ 31"
    using assms(1,4) by simp_all
  have tlen: "length (take (256 + 4 * k) buf) = 256 + 4 * k" and tlt: "256 + 4 * k < 2 ^ 31"
    using assms(1,4) by simp_all
  note whole = foreach_stream [OF len lt assms(5)]
  note cut = foreach_stream(2) [OF tlen tlt triple_collapse]
  have "st = DC_STATUS_SUCCESS"
    by (rule whole(1))
  moreover have "deepsix_parser_samples_foreach p (Some cb) ud =
           (DC_STATUS_SUCCESS, p\<lparr>callback := Some cb, userdata := Some ud\<rparr>,
            fold (deliver cb) (spec_stream (take (256 + 4 * k) buf) (4 * k)) ud)"
    by (simp only: whole(2) spec_stream_take [OF assms(3)])
  moreover have "length (spec_stream (take (256 + 4 * k) buf) (4 * k)) = 3 * k"
    by (simp add: length_spec_stream)
  ultimately show ?thesis
    by (simp only: cut snd_conv simp_thms)
qed

text \<open>The freedive followed by three more bytes.\<close>

lemma samples_foreach_odd_dive:
  "length odd_dive = 256 + 4 * 2 + 3 \<and> take (256 + 4 * 2) odd_dive = freedive_dive \<and>
   deepsix_parser_samples_foreach odd_parser (Some trace_callback) [] =
     (DC_STATUS_SUCCESS, odd_parser\<lparr>callback := Some trace_callback, userdata := Some []\<rparr>,
      [(DC_SAMPLE_TIME, Time 1), (DC_SAMPLE_DEPTH, Depth (100 / (1.024 * 0.980665) / 100)),
       (DC_SAMPLE_TEMPERATURE, Temperature 20.5),
       (DC_SAMPLE_TIME, Time 2), (DC_SAMPLE_DEPTH, Depth (200 / (1.024 * 0.980665) / 100)),
       (DC_SAMPLE_TEMPERATURE, Temperature 21)])"
proof -
  have len: "length odd_dive = 256 + 4 * 2 + 3"
    by (simp add: odd_dive_def freedive_dive_def)
  have cut: "take (256 + 4 * 2) odd_dive = freedive_dive"
    by (simp add: odd_dive_def freedive_dive_def)
  have small: "length odd_dive < 2 ^ 31"
    by (simp add: len)
  show ?thesis
    using samples_foreach_trailing [OF len _ _ small triple_collapse,
        where ?p0.0 = blank_parser and cb = trace_callback and ud = "[]"]
    by (simp add: odd_parser_def len cut [simplified] freedive_stream deliver_def
          trace_callback_def)
qed

text \<open>With no callback the loop delivers nothing.\<close>

lemma samples_foreach_null_callback:
  assumes "256 \<le> sz" and "unat sz < 2 ^ 31"
    and "dc_parser_set_data p0 buf sz = (st, diags, p)"
  shows "st = DC_STATUS_SUCCESS \<and>
         deepsix_parser_samples_foreach p None ud =
           (DC_STATUS_SUCCESS, p\<lparr>callback := None, userdata := Some ud\<rparr>, ud)"
  by (simp only: set_data_frame(1) [OF assms(1,3)] foreach_after_set_data [OF assms]
        samples_loop_None simp_thms)

text \<open>
  After a \<^verbatim>\<open>set_data\<close> that passed the length test, and after any sequence of queries,
  a fact that this \<^verbatim>\<open>set_data\<close> did not assign is reported unsupported, and no value is
  handed out for it.
\<close>

lemma unassigned_field_unsupported:
  assumes "256 \<le> sz" and "dc_parser_set_data p0 dat sz = (st, diags, p)"
    and "t \<notin> set (assigned_fields dat)"
  shows "st = DC_STATUS_SUCCESS \<and>
         deepsix_parser_get_field field_index get_string (foldl query_step p qs) t flags Out =
           (DC_STATUS_UNSUPPORTED, None) \<and>
         snd (deepsix_parser_get_field field_index get_string (foldl query_step p qs) t flags val)
           = None"
proof -
  have "\<not> bit (initialized (cache (foldl query_step p qs))) (field_bit t)"
    using assms(3) by (simp add: queries_cache presence_after_set_data [OF assms(1,2)])
  then have "initialized (cache (foldl query_step p qs)) AND push_bit (field_bit t) 1 = 0"
    by (rule presence_test [THEN iffD2])
  then show ?thesis
    by (simp add: deepsix_parser_get_field_def set_data_frame(1) [OF assms(1,2)])
qed

section \<open>The depth conversion\<close>

text \<open>
  C2, as stated, at 2013 mbar: the conversion gives \<open>1000 / (1.024 * 0.980665) / 100\<close>,
  about 9.958 m, which is further than 0.01 m from 9.93 m.
\<close>

theorem pressure_to_depth_2013_counterexample:
  "\<not> \<bar>pressure_to_depth 2013 - 9.93\<bar> \<le> 0.01"
  by (simp add: pressure_to_depth_def)

text \<open>
  C2, amended: \<^verbatim>\<open>pressure_to_depth\<close> maps every pressure strictly below 1013 mbar to
  depth 0, maps 1013 mbar to depth 0, maps 2013 mbar to a depth within 0.01 m of 9.96 m,
  and follows \<open>(value - 1013) / (1.024 * 0.980665) / 100\<close> for every value at or above
  1013.
\<close>

theorem pressure_to_depth_boundary:
  "(mbar < 1013 \<longrightarrow> pressure_to_depth mbar = 0) \<and>
   pressure_to_depth 1013 = 0 \<and>
   \<bar>pressure_to_depth 2013 - 9.96\<bar> \<le> 0.01 \<and>
   (1013 \<le> mbar \<longrightarrow>
      pressure_to_depth mbar = (real (unat mbar) - 1013) / (1.024 * 0.980665) / 100)"
proof (intro conjI impI)
  show "pressure_to_depth mbar = 0" if "mbar < 1013"
    using that by (simp add: pressure_to_depth_def)
  show "pressure_to_depth 1013 = 0"
    by (simp add: pressure_to_depth_def)
  show "\<bar>pressure_to_depth 2013 - 9.96\<bar> \<le> 0.01"
    by (simp add: pressure_to_depth_def)
  show "pressure_to_depth mbar = (real (unat mbar) - 1013) / (1.024 * 0.980665) / 100"
    if "1013 \<le> mbar"
    using that by (rule pressure_to_depth_above)
qed

text \<open>The amended C2 at 1000 mbar and at 1113 mbar.\<close>

theorem pressure_to_depth_boundary_witness:
  "(1000 :: 32 word) < 1013 \<and> pressure_to_depth 1000 = 0 \<and>
   (1013 :: 32 word) \<le> 1113 \<and> pressure_to_depth 1113 = 100 / (1.024 * 0.980665) / 100"
  using pressure_to_depth_boundary [of 1000] pressure_to_depth_boundary [of 1113]
  by simp

section \<open>A buffer shorter than the header\<close>

text \<open>
  C3, as stated, on an instance that an earlier \<^verbatim>\<open>set_data\<close> populated from the scuba
  header: \<^verbatim>\<open>set_data\<close> on an empty buffer returns the io-error and the cache still
  holds the earlier dive, so it is not the zeroed cache.
\<close>

theorem set_data_short_counterexample:
  "fst (dc_parser_set_data scuba_parser [] 0) = DC_STATUS_IO \<and>
   cache (snd (snd (dc_parser_set_data scuba_parser [] 0))) \<noteq> zero_cache"
proof -
  have "initialized (cache scuba_parser) = 4123"
    using set_data_cache(1) [OF _ triple_collapse, of 256 blank_parser scuba_header]
    by (simp add: scuba_parser_def scuba_header_def)
  then show ?thesis
    by (auto simp: dc_parser_set_data_def deepsix_parser_set_data_def zero_cache_def)
qed

text \<open>
  C3, amended: for every buffer size below 256 and every prior state of the instance,
  \<^verbatim>\<open>set_data\<close> returns the io-error, reports nothing and leaves the cache exactly as
  it was before the call: unchanged, not zeroed and never partially populated (the
  generic entry point has recorded the buffer and its size in the base class by
  then).
\<close>

theorem set_data_short:
  assumes "sz < 256"
  shows "dc_parser_set_data p dat sz = (DC_STATUS_IO, [], p\<lparr>base_data := dat, base_size := sz\<rparr>) \<and>
         deepsix_parser_set_data p dat sz = (DC_STATUS_IO, [], p) \<and>
         cache (snd (snd (dc_parser_set_data p dat sz))) = cache p"
  using assms
  by (simp add: dc_parser_set_data_def deepsix_parser_set_data_def)

text \<open>
  The amended C3 on a buffer of 10 bytes, for the instance populated from the scuba
  header: the cache still holds the 600 seconds of the earlier dive.
\<close>

theorem set_data_short_witness:
  "(10 :: 32 word) < 256 \<and>
   dc_parser_set_data scuba_parser (replicate 10 0) 10 =
     (DC_STATUS_IO, [], scuba_parser\<lparr>base_data := replicate 10 0, base_size := 10\<rparr>) \<and>
   cache (snd (snd (dc_parser_set_data scuba_parser (replicate 10 0) 10))) = cache scuba_parser \<and>
   DIVETIME (cache (snd (snd (dc_parser_set_data scuba_parser (replicate 10 0) 10)))) = 600"
  using set_data_short [of 10 scuba_parser "replicate 10 0"]
    set_data_cache(1) [OF _ triple_collapse,
      where sz = 256 and dat = scuba_header and ?p0.0 = blank_parser]
  by (simp add: scuba_parser_def scuba_header_def)

section \<open>The activity type of the header\<close>

text \<open>
  C4: on a buffer of at least 256 bytes whose byte 2 is 2 and whose byte 3 is 32,
  \<^verbatim>\<open>set_data\<close> succeeds and stores exactly one gas mix, with oxygen fraction 0.32 (the
  other fifteen entries stay zero), the gas-mix count 1 and the dive mode open-circuit,
  each marked present, and the duration is 60 times the 16-bit little-endian value of
  bytes 12 and 13; when byte 2 is 4 the duration is that value itself and the dive mode
  is freedive.
\<close>

theorem set_data_activity_mapping:
  assumes "256 \<le> sz" and "dc_parser_set_data p0 dat sz = (st, diags, p)"
  shows "(dat ! 2 = 2 \<and> dat ! 3 = 32 \<longrightarrow>
            st = DC_STATUS_SUCCESS \<and>
            GASMIX (cache p) =
              (replicate 16 zero_gasmix)[0 := \<lparr>helium = 0, oxygen = 0.32, nitrogen = 0\<rparr>] \<and>
            bit (initialized (cache p)) (field_bit DC_FIELD_GASMIX) \<and>
            GASMIX_COUNT (cache p) = 1 \<and>
            bit (initialized (cache p)) (field_bit DC_FIELD_GASMIX_COUNT) \<and>
            DIVEMODE (cache p) = DC_DIVEMODE_OC \<and>
            bit (initialized (cache p)) (field_bit DC_FIELD_DIVEMODE) \<and>
            unat (DIVETIME (cache p)) = 60 * le16 dat 12 \<and>
            bit (initialized (cache p)) (field_bit DC_FIELD_DIVETIME)) \<and>
         (dat ! 2 = 4 \<longrightarrow>
            st = DC_STATUS_SUCCESS \<and>
            DIVEMODE (cache p) = DC_DIVEMODE_FREEDIVE \<and>
            bit (initialized (cache p)) (field_bit DC_FIELD_DIVEMODE) \<and>
            unat (DIVETIME (cache p)) = le16 dat 12 \<and>
            bit (initialized (cache p)) (field_bit DC_FIELD_DIVETIME))"
proof (intro conjI impI)
  note c = set_data_cache(1) [OF assms]
  show "st = DC_STATUS_SUCCESS" "st = DC_STATUS_SUCCESS"
    by (rule set_data_frame(1) [OF assms])+
  assume scuba: "dat ! 2 = 2 \<and> dat ! 3 = 32"
  then show "GASMIX (cache p) =
      (replicate 16 zero_gasmix)[0 := \<lparr>helium = 0, oxygen = 0.32, nitrogen = 0\<rparr>]"
    by (simp add: c zero_cache_def MAXGASES_def zero_gasmix_def)
  from scuba show "GASMIX_COUNT (cache p) = 1" "DIVEMODE (cache p) = DC_DIVEMODE_OC"
    by (simp_all add: c)
  from scuba have "DIVETIME (cache p) = (ucast (dat ! 12) + 256 * ucast (dat ! 13)) * 60"
    by (simp add: c)
  then show "unat (DIVETIME (cache p)) = 60 * le16 dat 12"
    by (simp only: le16_def unat_divetime_minutes) simp
  from scuba show "bit (initialized (cache p)) (field_bit DC_FIELD_GASMIX)"
    "bit (initialized (cache p)) (field_bit DC_FIELD_GASMIX_COUNT)"
    "bit (initialized (cache p)) (field_bit DC_FIELD_DIVEMODE)"
    "bit (initialized (cache p)) (field_bit DC_FIELD_DIVETIME)"
    unfolding presence_after_set_data [OF assms] by (simp_all add: assigned_fields_def)
next
  note c = set_data_cache(1) [OF assms]
  assume free: "dat ! 2 = 4"
  then show "DIVEMODE (cache p) = DC_DIVEMODE_FREEDIVE"
    by (simp add: c)
  from free show "unat (DIVETIME (cache p)) = le16 dat 12"
    by (simp add: c unat_le16 le16_def)
  from free show "bit (initialized (cache p)) (field_bit DC_FIELD_DIVEMODE)"
    "bit (initialized (cache p)) (field_bit DC_FIELD_DIVETIME)"
    unfolding presence_after_set_data [OF assms] by (simp_all add: assigned_fields_def)
qed

text \<open>
  C4 on the scuba header (raw duration 10, so 600 seconds) and on the freedive (raw
  duration 10, so 10 seconds).
\<close>

theorem set_data_activity_mapping_witness:
  "scuba_header ! 2 = 2 \<and> scuba_header ! 3 = 32 \<and> le16 scuba_header 12 = 10 \<and>
   fst (dc_parser_set_data blank_parser scuba_header 256) = DC_STATUS_SUCCESS \<and>
   oxygen (GASMIX (cache scuba_parser) ! 0) = 0.32 \<and>
   GASMIX_COUNT (cache scuba_parser) = 1 \<and>
   DIVEMODE (cache scuba_parser) = DC_DIVEMODE_OC \<and>
   unat (DIVETIME (cache scuba_parser)) = 600 \<and>
   freedive_dive ! 2 = 4 \<and> le16 freedive_dive 12 = 10 \<and>
   unat (DIVETIME (cache freedive_parser)) = 10"
  using set_data_activity_mapping [OF _ triple_collapse,
      where sz = 256 and dat = scuba_header and ?p0.0 = blank_parser]
    set_data_activity_mapping [OF _ triple_collapse,
      where sz = 264 and dat = freedive_dive and ?p0.0 = blank_parser]
  by (simp add: scuba_parser_def freedive_parser_def scuba_header_def freedive_dive_def
        le16_def nth_append)

text \<open>
  C7, as stated, on the header with activity type 9: \<^verbatim>\<open>set_data\<close> succeeds and makes one
  report, through the macro \<^verbatim>\<open>ERROR\<close> and not as a warning.
\<close>

theorem set_data_unknown_activity_counterexample:
  "fst (dc_parser_set_data blank_parser unknown_header 256) = DC_STATUS_SUCCESS \<and>
   fst (snd (dc_parser_set_data blank_parser unknown_header 256)) =
     [(ERROR, Unknown_activity_type 9)] \<and>
   fst (snd (dc_parser_set_data blank_parser unknown_header 256)) \<noteq>
     [(WARNING, Unknown_activity_type 9)]"
  using set_data_frame(1) [OF _ triple_collapse,
      where sz = 256 and dat = unknown_header and ?p0.0 = blank_parser]
    set_data_cache(2) [OF _ triple_collapse,
      where sz = 256 and dat = unknown_header and ?p0.0 = blank_parser]
  by (simp add: unknown_header_def)

text \<open>
  C7, amended: on a buffer of at least 256 bytes whose byte 2 is none of 2, 3 and 4,
  \<^verbatim>\<open>set_data\<close> still succeeds; it reports the unknown activity type once, through the
  error-level macro \<^verbatim>\<open>ERROR\<close>, which is not fatal; it leaves the gas mix, the gas-mix
  count and the dive mode unset, and assigns the duration (the raw value of bytes 12
  and 13) and the maximum depth (converted from bytes 22 and 23: 0 below 1013 mbar,
  else \<open>(value - 1013) / (1.024 * 0.980665) / 100\<close>).
\<close>

theorem set_data_unknown_activity:
  assumes "256 \<le> sz" and "dat ! 2 \<noteq> 2" and "dat ! 2 \<noteq> 3" and "dat ! 2 \<noteq> 4"
    and "dc_parser_set_data p0 dat sz = (st, diags, p)"
  shows "st = DC_STATUS_SUCCESS \<and> diags = [(ERROR, Unknown_activity_type (dat ! 2))] \<and>
         \<not> bit (initialized (cache p)) (field_bit DC_FIELD_GASMIX) \<and>
         \<not> bit (initialized (cache p)) (field_bit DC_FIELD_GASMIX_COUNT) \<and>
         \<not> bit (initialized (cache p)) (field_bit DC_FIELD_DIVEMODE) \<and>
         bit (initialized (cache p)) (field_bit DC_FIELD_DIVETIME) \<and>
         unat (DIVETIME (cache p)) = le16 dat 12 \<and>
         bit (initialized (cache p)) (field_bit DC_FIELD_MAXDEPTH) \<and>
         MAXDEPTH (cache p) = pressure_to_depth (of_nat (le16 dat 22)) \<and>
         MAXDEPTH (cache p) =
           (if le16 dat 22 < 1013 then 0
            else (real (le16 dat 22) - 1013) / (1.024 * 0.980665) / 100)"
proof -
  note c = set_data_cache [OF assms(1,5)]
  have "st = DC_STATUS_SUCCESS"
    by (rule set_data_frame(1) [OF assms(1,5)])
  moreover have "diags = [(ERROR, Unknown_activity_type (dat ! 2))]"
    using assms(2-4) by (simp add: c(2))
  moreover have "unat (DIVETIME (cache p)) = le16 dat 12"
    using assms(2-4) by (simp add: c(1) unat_le16 le16_def)
  moreover have d: "MAXDEPTH (cache p) = pressure_to_depth (of_nat (le16 dat 22))"
    using assms(2-4) by (simp add: c(1) le16_def)
  moreover have "MAXDEPTH (cache p) =
      (if le16 dat 22 < 1013 then 0
       else (real (le16 dat 22) - 1013) / (1.024 * 0.980665) / 100)"
    by (simp only: d pressure_to_depth_le16)
  ultimately show ?thesis
    using assms(2-4) unfolding presence_after_set_data [OF assms(1,5)]
    by (simp add: assigned_fields_def)
qed

text \<open>
  The amended C7 on the header with activity type 9, a raw duration of 10 and a
  maximum pressure of 2013 mbar.
\<close>

theorem set_data_unknown_activity_witness:
  "unknown_header ! 2 = 9 \<and>
   fst (dc_parser_set_data blank_parser unknown_header 256) = DC_STATUS_SUCCESS \<and>
   fst (snd (dc_parser_set_data blank_parser unknown_header 256)) =
     [(ERROR, Unknown_activity_type 9)] \<and>
   initialized (cache unknown_parser) = 3 \<and>
   unat (DIVETIME (cache unknown_parser)) = 10 \<and>
   MAXDEPTH (cache unknown_parser) = 1000 / (1.024 * 0.980665) / 100"
  using set_data_unknown_activity [OF _ _ _ _ triple_collapse,
      where sz = 256 and dat = unknown_header and ?p0.0 = blank_parser]
    set_data_cache(1) [OF _ triple_collapse,
      where sz = 256 and dat = unknown_header and ?p0.0 = blank_parser]
  by (simp add: unknown_parser_def unknown_header_def le16_def)

section \<open>Presence and indices in \<^verbatim>\<open>get_field\<close>\<close>




text \<open>
  C6, where the code departs from it: an instance created on memory that a previous
  owner left dirty, whose only \<^verbatim>\<open>set_data\<close> failed on an empty buffer and so assigned
  nothing, answers the query for the duration with success and the value 7 that the
  memory held, where the claim has the query fail with unsupported.
  \<^verbatim>\<open>dc_parser_allocate\<close> initialises the base class only, and the cache is cleared
  nowhere but in a \<^verbatim>\<open>set_data\<close> that has passed the length test.
\<close>

theorem get_field_before_first_decode:
  "deepsix_parser_create (Some stale_memory) = (DC_STATUS_SUCCESS, Some fresh_parser) \<and>
   dc_parser_set_data fresh_parser [] 0 = (DC_STATUS_IO, [], fresh_parser) \<and>
   deepsix_parser_get_field DC_FIELD_INDEX no_strings fresh_parser DC_FIELD_DIVETIME 0 Out =
     (DC_STATUS_SUCCESS, Some (UInt 7))"
  by (simp add: deepsix_parser_create_def dc_parser_allocate_def fresh_parser_def
        stale_memory_def dc_parser_set_data_def deepsix_parser_set_data_def
        deepsix_parser_get_field_def DC_FIELD_VALUE_def zero_cache_def)

subsection \<open>Queries with no output pointer\<close>

text \<open>
  C10: for every fact type and index, \<^verbatim>\<open>get_field\<close> with a \<^verbatim>\<open>NULL\<close> output pointer
  returns invalid-argument, whatever the cache holds (so also when the fact is
  present) and whatever the cache's accessors would do: the result does not depend on
  the instance, and the query hands nothing out.
\<close>

theorem get_field_null_value:
  "deepsix_parser_get_field field_index get_string deepsix type flags NULL =
     (DC_STATUS_INVALIDARGS, None)"
  by (simp add: deepsix_parser_get_field_def)

section \<open>The sample stream on a buffer of \<open>2\<^sup>3\<^sup>1\<close> bytes or more\<close>

text \<open>
  C1, where the code departs from it: on a buffer of \<open>2\<^sup>3\<^sup>1\<close> bytes, a body of
  2147483392 bytes, \<^verbatim>\<open>set_data\<close> succeeds (it compares the unsigned size), but
  \<^verbatim>\<open>foreach_sample\<close> reads the size into an \<^verbatim>\<open>int\<close>, finds it negative, returns the
  io-error and calls the recording callback not once, where the claim counts
  1610612544 calls.
\<close>

theorem samples_foreach_huge_buffer:
  "length huge_dive = 256 + 2147483392 \<and>
   fst (dc_parser_set_data blank_parser huge_dive 2147483648) = DC_STATUS_SUCCESS \<and>
   deepsix_parser_samples_foreach huge_parser (Some trace_callback) [] =
     (DC_STATUS_IO, huge_parser\<lparr>callback := Some trace_callback, userdata := Some []\<rparr>, [])"
  using set_data_frame(1) [OF _ triple_collapse,
      where sz = 2147483648 and dat = huge_dive and ?p0.0 = blank_parser]
    foreach_huge [of huge_parser "Some trace_callback" "[]"]
  by (simp add: base_size_huge huge_dive_def)

text \<open>
  C8, where the code departs from it: on a buffer of \<open>2\<^sup>3\<^sup>1 + 1\<close> bytes, a body of
  \<open>4 * 536870848 + 1\<close> bytes, \<^verbatim>\<open>set_data\<close> succeeds and \<^verbatim>\<open>foreach_sample\<close> returns the
  io-error and delivers nothing, where the claim has it decode 536870848 records and
  succeed.
\<close>

theorem samples_foreach_huge_trailing:
  "length huge_odd_dive = 256 + 4 * 536870848 + 1 \<and>
   fst (dc_parser_set_data blank_parser huge_odd_dive 2147483649) = DC_STATUS_SUCCESS \<and>
   deepsix_parser_samples_foreach huge_odd_parser (Some trace_callback) [] =
     (DC_STATUS_IO, huge_odd_parser\<lparr>callback := Some trace_callback, userdata := Some []\<rparr>, [])"
  using set_data_frame(1) [OF _ triple_collapse,
      where sz = 2147483649 and dat = huge_odd_dive and ?p0.0 = blank_parser]
    foreach_huge [of huge_odd_parser "Some trace_callback" "[]"]
  by (simp add: base_size_huge_odd huge_odd_dive_def)

text \<open>
  C9, where the code departs from it: on the buffer of \<open>2\<^sup>3\<^sup>1\<close> bytes, with a \<^verbatim>\<open>NULL\<close>
  callback, \<^verbatim>\<open>foreach_sample\<close> returns the io-error, where the claim has it succeed.
\<close>

theorem samples_foreach_huge_null_callback:
  "(256 :: 32 word) \<le> 2147483648 \<and>
   fst (dc_parser_set_data blank_parser huge_dive 2147483648) = DC_STATUS_SUCCESS \<and>
   deepsix_parser_samples_foreach huge_parser None [] =
     (DC_STATUS_IO, huge_parser\<lparr>callback := None, userdata := Some []\<rparr>, [])"
  using set_data_frame(1) [OF _ triple_collapse,
      where sz = 2147483648 and dat = huge_dive and ?p0.0 = blank_parser]
    foreach_huge [of huge_parser None "[]"]
  by (simp add: base_size_huge)

end
